theory Spec2Isabelle
  imports Main
begin

section \<open>Python values that reach the handlers\<close>

text \<open>
  The application in \<^verbatim>\<open>flask SELFLEARN/app.py\<close> registers two view functions on
  \<^verbatim>\<open>/api/tasks\<close>: \<^verbatim>\<open>list_tasks\<close> (GET) and \<^verbatim>\<open>create_task\<close> (POST). The values they
  handle are the Python objects a JSON document parses to: \<^verbatim>\<open>None\<close>, \<^verbatim>\<open>bool\<close>,
  \<^verbatim>\<open>int\<close>, \<^verbatim>\<open>float\<close>, \<^verbatim>\<open>str\<close>, \<^verbatim>\<open>list\<close> and \<^verbatim>\<open>dict\<close>.

  A Python float is kept as sign, mantissa and binary exponent (or an infinity, or a
  NaN); the handlers only ever test it for being zero.
\<close>

datatype pyfloat = FFinite bool nat int | FInf bool | FNaN

datatype pyval =
    PyNone
  | PyBool bool
  | PyInt int
  | PyFloat pyfloat
  | PyStr string
  | PyList "pyval list"
  | PyDict "(string \<times> pyval) list"

text \<open>
  A dict is the list of its items in insertion order; a key is read with \<open>map_of\<close>.
  (The keys of a Python dict are distinct, so the order of the items never decides a
  lookup.)
\<close>

text \<open>Python's \<^verbatim>\<open>bool(x)\<close> for a float: everything but \<^verbatim>\<open>0.0\<close> and \<^verbatim>\<open>-0.0\<close> is true.\<close>

fun float_truthy :: "pyfloat \<Rightarrow> bool" where
  "float_truthy (FFinite neg m e) = (m \<noteq> 0)"
| "float_truthy (FInf neg) = True"
| "float_truthy FNaN = True"

text \<open>
  Python's truth value testing, which \<^verbatim>\<open>if data\<close> and \<^verbatim>\<open>if not title\<close> apply:
  \<^verbatim>\<open>None\<close>, \<^verbatim>\<open>False\<close>, zero of a numeric type and the empty string, list and dict are
  false; every other value is true.
\<close>

fun truthy :: "pyval \<Rightarrow> bool" where
  "truthy PyNone = False"
| "truthy (PyBool b) = b"
| "truthy (PyInt n) = (n \<noteq> 0)"
| "truthy (PyFloat f) = float_truthy f"
| "truthy (PyStr s) = (s \<noteq> [])"
| "truthy (PyList xs) = (xs \<noteq> [])"
| "truthy (PyDict kvs) = (kvs \<noteq> [])"

section \<open>Errors, requests and responses\<close>

text \<open>
  Two kinds of exception can leave a view function: an \<^verbatim>\<open>HTTPException\<close> with its
  status code and description (what \<^verbatim>\<open>abort\<close> raises, and what the framework raises
  on a body it cannot read), and Python's \<^verbatim>\<open>AttributeError\<close>, raised when
  \<^verbatim>\<open>.get\<close> is looked up on an object that is not a dict.
\<close>

datatype error = HTTPException nat string | AttributeError

text \<open>
  The view functions read one thing from Flask's \<^verbatim>\<open>request\<close> object: the result of
  \<^verbatim>\<open>request.get_json()\<close>. The framework either returns the parsed body (\<^verbatim>\<open>None\<close>
  where it finds no JSON body and does not object) or raises an error of its own, for
  a body it cannot read; the request carries that outcome, and an error raised there
  leaves the view function as it is.
\<close>

record request =
  get_json :: "error + pyval"

record response =
  status :: nat
  mimetype :: string
  body :: pyval

text \<open>
  \<^verbatim>\<open>jsonify(v)\<close>: a response with the JSON payload \<open>v\<close>, the content type
  \<^verbatim>\<open>application/json\<close> and the status 200 (line 24 of the source).
\<close>

definition jsonify :: "pyval \<Rightarrow> response" where
  "jsonify v = \<lparr>status = 200, mimetype = ''application/json'', body = v\<rparr>"

text \<open>
  A view function that returns the pair \<^verbatim>\<open>(response, code)\<close> answers with that
  response under the status \<^verbatim>\<open>code\<close>.
\<close>

definition with_status :: "response \<Rightarrow> nat \<Rightarrow> response" where
  "with_status r code = r\<lparr>status := code\<rparr>"

text \<open>\<^verbatim>\<open>abort(code, description=d)\<close> raises the HTTP exception of that code.\<close>

definition abort :: "nat \<Rightarrow> string \<Rightarrow> error + 'a" where
  "abort code description = Inl (HTTPException code description)"

text \<open>
  \<^verbatim>\<open>data.get(key)\<close>: on a dict, the value under the key or \<^verbatim>\<open>None\<close>; on any
  other object the attribute \<^verbatim>\<open>get\<close> does not exist.
\<close>

fun py_get :: "pyval \<Rightarrow> string \<Rightarrow> error + pyval" where
  "py_get (PyDict kvs) key =
     Inr (case map_of kvs key of None \<Rightarrow> PyNone | Some v \<Rightarrow> v)"
| "py_get other key = Inl AttributeError"

section \<open>The two view functions\<close>

text \<open>
  Each view function takes the request and the state \<open>g\<close> that outlives a request
  (the module's globals and everything reachable from them), and returns its outcome
  with the state it leaves behind. Neither function assigns to a global or mutates an
  object, so \<open>g\<close> can be of any type.

  \<^verbatim>\<open>
  @app.get("/api/tasks")
  def list_tasks():
      return jsonify([{"id": 1, "title": "Task 1"}])
  \<close>
\<close>

definition list_tasks :: "request \<Rightarrow> 'g \<Rightarrow> (error + response) \<times> 'g" where
  "list_tasks req g =
     (Inr (jsonify (PyList [PyDict [(''id'', PyInt 1), (''title'', PyStr ''Task 1'')]])), g)"

text \<open>
  \<^verbatim>\<open>
  @app.post("/api/tasks")
  def create_task():
      data = request.get_json()
      title = data.get("title") if data else None
      if not title:
          abort(400, description="title required")
      return jsonify({"id": 2, "title": title}), 201
  \<close>
\<close>

definition create_task :: "request \<Rightarrow> 'g \<Rightarrow> (error + response) \<times> 'g" where
  "create_task req g =
     (case get_json req of
        Inl e \<Rightarrow> (Inl e, g)
      | Inr data \<Rightarrow>
          (case (if truthy data then py_get data ''title'' else Inr PyNone) of
             Inl e \<Rightarrow> (Inl e, g)
           | Inr title \<Rightarrow>
               if \<not> truthy title then (abort 400 ''title required'', g)
               else (Inr (with_status
                            (jsonify (PyDict [(''id'', PyInt 2), (''title'', title)])) 201), g)))"

section \<open>Serving requests one after another\<close>

text \<open>
  The two routes the module registers, and the view function each one is bound to by
  its decorator (\<^verbatim>\<open>@app.get("/api/tasks")\<close>, \<^verbatim>\<open>@app.post("/api/tasks")\<close>).
\<close>

datatype endpoint = GET_api_tasks | POST_api_tasks

definition view_function :: "endpoint \<Rightarrow> request \<Rightarrow> 'g \<Rightarrow> (error + response) \<times> 'g" where
  "view_function ep =
     (case ep of GET_api_tasks \<Rightarrow> list_tasks | POST_api_tasks \<Rightarrow> create_task)"

text \<open>
  The running application answers its calls in sequence: each view function starts
  from the state the previous one left, and the outcomes are collected in order.
\<close>

fun serve :: "(endpoint \<times> request) list \<Rightarrow> 'g \<Rightarrow> (error + response) list \<times> 'g" where
  "serve [] g = ([], g)"
| "serve ((ep, req) # calls) g =
     (case view_function ep req g of
        (out, g') \<Rightarrow> (case serve calls g' of (outs, g'') \<Rightarrow> (out # outs, g'')))"

section \<open>The conditions the specification names\<close>

text \<open>\<^verbatim>\<open>isinstance(data, dict)\<close>.\<close>

fun is_dict :: "pyval \<Rightarrow> bool" where
  "is_dict (PyDict kvs) = True"
| "is_dict other = False"

text \<open>
  The \<^verbatim>\<open>"title"\<close> field of a parsed body, when the body is a JSON object that has
  one.
\<close>

fun title_field :: "pyval \<Rightarrow> pyval option" where
  "title_field (PyDict kvs) = map_of kvs ''title''"
| "title_field other = None"

text \<open>
  The failure condition in the specification's words: the body is absent, or it has no
  \<^verbatim>\<open>"title"\<close> field, or its title is the empty string.
\<close>

definition spec_title_missing_or_empty :: "pyval \<Rightarrow> bool" where
  "spec_title_missing_or_empty data =
     (title_field data = None \<or> title_field data = Some (PyStr []))"

text \<open>
  The condition \<^verbatim>\<open>not title\<close> tests: there is no title, or the title is a value
  Python counts as false.
\<close>

definition title_missing_or_falsy :: "pyval \<Rightarrow> bool" where
  "title_missing_or_falsy data =
     (case title_field data of None \<Rightarrow> True | Some v \<Rightarrow> \<not> truthy v)"

section \<open>Creating a task\<close>

text \<open>
  What \<^verbatim>\<open>create_task\<close> does once \<^verbatim>\<open>request.get_json()\<close> has returned, by the shape
  of the body.
\<close>

lemma create_task_returned:
  assumes "get_json req = Inr data"
  shows "create_task req g =
           (if \<not> truthy data then (Inl (HTTPException 400 ''title required''), g)
            else if is_dict data then
              (case title_field data of
                 None \<Rightarrow> (Inl (HTTPException 400 ''title required''), g)
               | Some v \<Rightarrow>
                   if truthy v
                   then (Inr \<lparr>status = 201, mimetype = ''application/json'',
                              body = PyDict [(''id'', PyInt 2), (''title'', v)]\<rparr>, g)
                   else (Inl (HTTPException 400 ''title required''), g))
            else (Inl AttributeError, g))"
  using assms
  by (cases data)
     (simp_all add: create_task_def jsonify_def with_status_def abort_def
        split: option.splits)

lemma create_task_state: "snd (create_task req g) = g"
  by (simp add: create_task_def abort_def split: sum.splits)

lemma create_task_outcome: "fst (create_task req g) = fst (create_task req g')"
  by (simp add: create_task_def abort_def split: sum.splits)

lemma list_tasks_state: "snd (list_tasks req g) = g"
  by (simp add: list_tasks_def)

lemma list_tasks_outcome: "fst (list_tasks req g) = fst (list_tasks req g')"
  by (simp add: list_tasks_def)

lemma view_function_state: "snd (view_function ep req g) = g"
  by (cases ep) (simp_all add: view_function_def create_task_state list_tasks_state)

lemma view_function_outcome:
  "fst (view_function ep req g) = fst (view_function ep req g')"
proof (cases ep)
  case GET_api_tasks
  then show ?thesis
    using list_tasks_outcome [of req g g'] by (simp add: view_function_def)
next
  case POST_api_tasks
  then show ?thesis
    using create_task_outcome [of req g g'] by (simp add: view_function_def)
qed

lemma serve_state: "snd (serve calls g) = g"
proof (induction calls arbitrary: g)
  case Nil
  show ?case by simp
next
  case (Cons c calls)
  obtain ep req where c: "c = (ep, req)" by (cases c)
  obtain out g1 where v: "view_function ep req g = (out, g1)"
    by (cases "view_function ep req g")
  obtain outs g2 where s: "serve calls g1 = (outs, g2)"
    by (cases "serve calls g1")
  have "g1 = g" using view_function_state [of ep req g] v by simp
  moreover have "g2 = g1" using Cons.IH [of g1] s by simp
  ultimately show ?case using c v s by simp
qed

lemma serve_outcomes:
  "fst (serve calls g) = map (\<lambda>(ep, req). fst (view_function ep req g')) calls"
proof (induction calls arbitrary: g)
  case Nil
  show ?case by simp
next
  case (Cons c calls)
  obtain ep req where c: "c = (ep, req)" by (cases c)
  obtain out g1 where v: "view_function ep req g = (out, g1)"
    by (cases "view_function ep req g")
  obtain outs g2 where s: "serve calls g1 = (outs, g2)"
    by (cases "serve calls g1")
  have "out = fst (view_function ep req g')"
    using view_function_outcome [of ep req g g'] v by simp
  moreover have "outs = map (\<lambda>(ep, req). fst (view_function ep req g')) calls"
    using Cons.IH [of g1] s by simp
  ultimately show ?case using c v s by simp
qed

lemma create_task_dict:
  assumes "get_json req = Inr (PyDict kvs)" and "map_of kvs ''title'' = Some v"
  shows "create_task req g =
           (if truthy v
            then (Inr \<lparr>status = 201, mimetype = ''application/json'',
                       body = PyDict [(''id'', PyInt 2), (''title'', v)]\<rparr>, g)
            else (Inl (HTTPException 400 ''title required''), g))"
proof -
  from assms(2) have "kvs \<noteq> []" by auto
  with assms show ?thesis
    by (simp add: create_task_def jsonify_def with_status_def abort_def)
qed

text \<open>
  C1. A body \<^verbatim>\<open>{"title": t}\<close> with a non-empty string \<open>t\<close> is answered with status
  201 and the JSON object \<^verbatim>\<open>{"id": 2, "title": t}\<close>: the title comes back as it was
  sent, under the fixed identifier 2. (Further fields of the body change nothing.)
\<close>

theorem create_task_echoes_title:
  assumes "get_json req = Inr (PyDict kvs)"
    and "map_of kvs ''title'' = Some (PyStr t)"
    and "t \<noteq> []"
  shows "create_task req g =
           (Inr \<lparr>status = 201, mimetype = ''application/json'',
                 body = PyDict [(''id'', PyInt 2), (''title'', PyStr t)]\<rparr>, g)"
  using create_task_dict [OF assms(1,2)] assms(3) by simp

theorem create_task_echoes_title_witness:
  "get_json \<lparr>get_json = Inr (PyDict [(''title'', PyStr ''Buy milk'')])\<rparr>
     = Inr (PyDict [(''title'', PyStr ''Buy milk'')])
   \<and> map_of [(''title'', PyStr ''Buy milk'')] ''title'' = Some (PyStr ''Buy milk'')
   \<and> ''Buy milk'' \<noteq> []
   \<and> create_task \<lparr>get_json = Inr (PyDict [(''title'', PyStr ''Buy milk'')])\<rparr> ()
     = (Inr \<lparr>status = 201, mimetype = ''application/json'',
             body = PyDict [(''id'', PyInt 2), (''title'', PyStr ''Buy milk'')]\<rparr>, ())"
  using create_task_echoes_title
          [of "\<lparr>get_json = Inr (PyDict [(''title'', PyStr ''Buy milk'')])\<rparr>"
              "[(''title'', PyStr ''Buy milk'')]" "''Buy milk''" "()"]
  by simp

text \<open>
  C2. As the specification states it, creation fails with 400 exactly when the title is
  missing or the empty string, and succeeds with 201 in every other case. The code tests
  the title's truth value instead: the body \<^verbatim>\<open>{"title": 0}\<close> has a title that is neither
  missing nor the empty string, and is refused with 400.
\<close>

theorem create_task_refuses_title_zero:
  "fst (create_task \<lparr>get_json = Inr (PyDict [(''title'', PyInt 0)])\<rparr> ())
     = Inl (HTTPException 400 ''title required'')
   \<and> \<not> spec_title_missing_or_empty (PyDict [(''title'', PyInt 0)])"
  by (simp add: create_task_def abort_def spec_title_missing_or_empty_def)

text \<open>
  C2, amended. For every request whose parsed body is false in Python's sense (absent,
  \<^verbatim>\<open>{}\<close>, ...) or a JSON object, creation fails with 400 and the description
  \<^verbatim>\<open>title required\<close> if and only if the title is missing or is a value Python counts as
  false (\<^verbatim>\<open>None\<close>, \<^verbatim>\<open>False\<close>, zero, the empty string, list or dict), and it succeeds with
  201 in every other such case.
\<close>

theorem create_task_400_iff_title_missing_or_falsy:
  assumes "get_json req = Inr data"
    and "truthy data \<Longrightarrow> is_dict data"
  shows "(fst (create_task req g) = Inl (HTTPException 400 ''title required''))
           = title_missing_or_falsy data
         \<and> (\<exists>r. fst (create_task req g) = Inr r \<and> status r = 201)
           = (\<not> title_missing_or_falsy data)"
proof (cases "truthy data")
  case False
  then have "title_field data = None"
    by (cases data) simp_all
  with False assms(1) show ?thesis
    by (simp add: create_task_returned title_missing_or_falsy_def)
next
  case True
  with assms(2) have "is_dict data" .
  with True assms(1) show ?thesis
    by (auto simp: create_task_returned title_missing_or_falsy_def split: option.splits)
qed

theorem create_task_400_iff_title_missing_or_falsy_witness:
  "get_json \<lparr>get_json = Inr (PyDict [(''title'', PyStr [])])\<rparr>
     = Inr (PyDict [(''title'', PyStr [])])
   \<and> is_dict (PyDict [(''title'', PyStr [])])
   \<and> title_missing_or_falsy (PyDict [(''title'', PyStr [])])
   \<and> fst (create_task \<lparr>get_json = Inr (PyDict [(''title'', PyStr [])])\<rparr> ())
       = Inl (HTTPException 400 ''title required'')
   \<and> \<not> (\<exists>r. fst (create_task \<lparr>get_json = Inr (PyDict [(''title'', PyStr [])])\<rparr> ()) = Inr r
            \<and> status r = 201)"
proof -
  let ?d = "PyDict [(''title'', PyStr [])]"
  let ?req = "\<lparr>get_json = Inr ?d\<rparr>"
  have h1: "get_json ?req = Inr ?d" by simp
  have h2: "truthy ?d \<Longrightarrow> is_dict ?d" by simp
  have m: "title_missing_or_falsy ?d" by (simp add: title_missing_or_falsy_def)
  from create_task_400_iff_title_missing_or_falsy [OF h1 h2, of "()"] m h1
  show ?thesis by simp
qed

text \<open>
  A body that is true in Python's sense and not a JSON object (a non-empty array, say)
  leaves the view function with the \<^verbatim>\<open>AttributeError\<close> of \<^verbatim>\<open>data.get\<close>: it is
  neither refused with 400 nor answered with 201.
\<close>

lemma create_task_array_body:
  "create_task \<lparr>get_json = Inr (PyList [PyInt 1])\<rparr> () = (Inl AttributeError, ())"
  by (simp add: create_task_def)

section \<open>Listing the tasks\<close>

text \<open>
  C3. Whatever the request, the list route answers with status 200 and a JSON array of
  one element, the object with \<^verbatim>\<open>id\<close> 1 and \<^verbatim>\<open>title\<close> \<^verbatim>\<open>"Task 1"\<close>.
\<close>

theorem list_tasks_fixed_literal:
  "\<exists>r. fst (list_tasks req g) = Inr r
       \<and> status r = 200
       \<and> body r = PyList [PyDict [(''id'', PyInt 1), (''title'', PyStr ''Task 1'')]]"
  by (simp add: list_tasks_def jsonify_def)

text \<open>
  C6. The list route succeeds on every call: for every request and every state it
  returns a response, never an error, and leaves the state as it found it.
\<close>

theorem list_tasks_never_fails:
  "\<exists>r. list_tasks req g = (Inr r, g)"
  by (simp add: list_tasks_def)

section \<open>Identifiers, errors and state over successive requests\<close>

text \<open>
  C4. When two creations served one after the other both succeed, each response carries
  the identifier 2, whatever the two titles are: no counter is advanced in between.
\<close>

theorem create_task_id_is_constant:
  assumes "serve [(POST_api_tasks, req1), (POST_api_tasks, req2)] g = ([Inr r1, Inr r2], g')"
  shows "py_get (body r1) ''id'' = Inr (PyInt 2) \<and> py_get (body r2) ''id'' = Inr (PyInt 2)"
proof -
  have id2: "py_get (body r) ''id'' = Inr (PyInt 2)"
    if "fst (create_task req h) = Inr r" for req r and h :: 'a
    using that
    by (auto simp: create_task_def jsonify_def with_status_def abort_def
          split: sum.splits if_splits)
  have "fst (serve [(POST_api_tasks, req1), (POST_api_tasks, req2)] g)
          = map (\<lambda>(ep, req). fst (view_function ep req g))
              [(POST_api_tasks, req1), (POST_api_tasks, req2)]"
    by (rule serve_outcomes)
  then have "fst (serve [(POST_api_tasks, req1), (POST_api_tasks, req2)] g)
          = [fst (create_task req1 g), fst (create_task req2 g)]"
    by (simp only: list.map prod.case view_function_def endpoint.case)
  with assms have "fst (create_task req1 g) = Inr r1" and "fst (create_task req2 g) = Inr r2"
    by simp_all
  then show ?thesis using id2 by blast
qed

theorem create_task_id_is_constant_witness:
  "serve [(POST_api_tasks, \<lparr>get_json = Inr (PyDict [(''title'', PyStr ''Buy milk'')])\<rparr>),
          (POST_api_tasks, \<lparr>get_json = Inr (PyDict [(''title'', PyStr ''Walk dog'')])\<rparr>)] ()
     = ([Inr \<lparr>status = 201, mimetype = ''application/json'',
              body = PyDict [(''id'', PyInt 2), (''title'', PyStr ''Buy milk'')]\<rparr>,
         Inr \<lparr>status = 201, mimetype = ''application/json'',
              body = PyDict [(''id'', PyInt 2), (''title'', PyStr ''Walk dog'')]\<rparr>], ())
   \<and> py_get (body \<lparr>status = 201, mimetype = ''application/json'',
                    body = PyDict [(''id'', PyInt 2), (''title'', PyStr ''Buy milk'')]\<rparr>) ''id''
       = Inr (PyInt 2)
   \<and> py_get (body \<lparr>status = 201, mimetype = ''application/json'',
                    body = PyDict [(''id'', PyInt 2), (''title'', PyStr ''Walk dog'')]\<rparr>) ''id''
       = Inr (PyInt 2)"
proof -
  let ?q1 = "\<lparr>get_json = Inr (PyDict [(''title'', PyStr ''Buy milk'')])\<rparr>"
  let ?q2 = "\<lparr>get_json = Inr (PyDict [(''title'', PyStr ''Walk dog'')])\<rparr>"
  let ?r1 = "\<lparr>status = 201, mimetype = ''application/json'',
              body = PyDict [(''id'', PyInt 2), (''title'', PyStr ''Buy milk'')]\<rparr>"
  let ?r2 = "\<lparr>status = 201, mimetype = ''application/json'',
              body = PyDict [(''id'', PyInt 2), (''title'', PyStr ''Walk dog'')]\<rparr>"
  have run: "serve [(POST_api_tasks, ?q1), (POST_api_tasks, ?q2)] () = ([Inr ?r1, Inr ?r2], ())"
    by (simp add: view_function_def create_task_def jsonify_def with_status_def)
  from create_task_id_is_constant [OF run] run show ?thesis by simp
qed

text \<open>
  C5. As the specification states it, whenever the create route fails, the error is the
  400 client error with the description \<^verbatim>\<open>title required\<close>. The route does not
  catch what \<^verbatim>\<open>request.get_json()\<close> raises: for a body that is not well-formed JSON
  the framework raises its own \<^verbatim>\<open>BadRequest\<close>, and the route fails with that error
  and the framework's description, not with \<^verbatim>\<open>title required\<close>.
\<close>

theorem create_task_passes_framework_error:
  "fst (create_task
          \<lparr>get_json = Inl (HTTPException 400
             ''The browser (or proxy) sent a request that this server could not understand.'')\<rparr>
          ())
     = Inl (HTTPException 400
             ''The browser (or proxy) sent a request that this server could not understand.'')
   \<and> fst (create_task
          \<lparr>get_json = Inl (HTTPException 400
             ''The browser (or proxy) sent a request that this server could not understand.'')\<rparr>
          ())
     \<noteq> Inl (HTTPException 400 ''title required'')"
  by (simp add: create_task_def)

text \<open>
  C5, amended. Whenever \<^verbatim>\<open>request.get_json()\<close> has returned and the create route
  then fails with an HTTP error, that error is the one of its own \<^verbatim>\<open>abort\<close>: the
  400 client error with the description \<^verbatim>\<open>title required\<close>.
\<close>

theorem create_task_error_is_described:
  assumes "get_json req = Inr data"
    and "fst (create_task req g) = Inl (HTTPException code description)"
  shows "code = 400 \<and> description = ''title required''"
  using assms(2)
  by (simp add: create_task_returned [OF assms(1)] split: if_splits option.splits)

theorem create_task_error_is_described_witness:
  "get_json \<lparr>get_json = Inr (PyDict [])\<rparr> = Inr (PyDict [])
   \<and> fst (create_task \<lparr>get_json = Inr (PyDict [])\<rparr> ())
       = Inl (HTTPException 400 ''title required'')
   \<and> (400::nat) = 400 \<and> ''title required'' = ''title required''"
proof -
  let ?req = "\<lparr>get_json = Inr (PyDict [])\<rparr>"
  have h1: "get_json ?req = Inr (PyDict [])" by simp
  have h2: "fst (create_task ?req ()) = Inl (HTTPException 400 ''title required'')"
    by (simp add: create_task_def abort_def)
  from create_task_error_is_described [OF h1 h2] h1 h2 show ?thesis by simp
qed

text \<open>
  C7. Both view functions are functions of their own request alone: the outcome of a
  call is the same after any history of earlier calls and from any state, and the
  outcomes of a sequence of calls are, one by one, the outcomes each call has on its
  own.
\<close>

theorem view_functions_depend_on_request_only:
  "fst (view_function ep req (snd (serve history1 g1)))
     = fst (view_function ep req (snd (serve history2 g2)))
   \<and> fst (serve calls g) = map (\<lambda>(ep, req). fst (view_function ep req g')) calls"
  using view_function_outcome [of ep req "snd (serve history1 g1)" "snd (serve history2 g2)"]
    serve_outcomes [of calls g g']
  by simp

text \<open>
  C8. The create route returns the state it was given, on success and on failure
  alike; so does any sequence of calls; and a list request served after any sequence
  of calls is answered with the fixed literal only.
\<close>

theorem create_task_leaves_state:
  "snd (create_task req g) = g
   \<and> snd (serve calls g) = g
   \<and> last (fst (serve (calls @ [(GET_api_tasks, req')]) g))
       = Inr \<lparr>status = 200, mimetype = ''application/json'',
              body = PyList [PyDict [(''id'', PyInt 1), (''title'', PyStr ''Task 1'')]]\<rparr>"
  by (simp add: create_task_state serve_state serve_outcomes [of _ g g]
        view_function_def list_tasks_def jsonify_def)

section \<open>Titles that are not non-empty strings\<close>

text \<open>
  C9. A body whose \<^verbatim>\<open>"title"\<close> field is present with a value Python counts as false
  (\<^verbatim>\<open>0\<close>, \<^verbatim>\<open>false\<close>, \<^verbatim>\<open>null\<close>, ...) is refused with the 400 error; no task is created.
\<close>

theorem create_task_refuses_falsy_title:
  assumes "get_json req = Inr (PyDict kvs)"
    and "map_of kvs ''title'' = Some v"
    and "\<not> truthy v"
  shows "create_task req g = (Inl (HTTPException 400 ''title required''), g)"
  using create_task_dict [OF assms(1,2)] assms(3) by simp

theorem create_task_refuses_falsy_title_witness:
  "\<not> truthy (PyBool False) \<and> \<not> truthy PyNone \<and> \<not> truthy (PyFloat (FFinite True 0 0))
   \<and> create_task \<lparr>get_json = Inr (PyDict [(''title'', PyBool False)])\<rparr> ()
       = (Inl (HTTPException 400 ''title required''), ())
   \<and> create_task \<lparr>get_json = Inr (PyDict [(''title'', PyNone)])\<rparr> ()
       = (Inl (HTTPException 400 ''title required''), ())
   \<and> create_task \<lparr>get_json = Inr (PyDict [(''title'', PyFloat (FFinite True 0 0))])\<rparr> ()
       = (Inl (HTTPException 400 ''title required''), ())"
  using create_task_refuses_falsy_title
          [of "\<lparr>get_json = Inr (PyDict [(''title'', PyBool False)])\<rparr>"
              "[(''title'', PyBool False)]" "PyBool False" "()"]
        create_task_refuses_falsy_title
          [of "\<lparr>get_json = Inr (PyDict [(''title'', PyNone)])\<rparr>"
              "[(''title'', PyNone)]" "PyNone" "()"]
        create_task_refuses_falsy_title
          [of "\<lparr>get_json = Inr (PyDict [(''title'', PyFloat (FFinite True 0 0))])\<rparr>"
              "[(''title'', PyFloat (FFinite True 0 0))]" "PyFloat (FFinite True 0 0)" "()"]
  by simp

text \<open>
  C10. The create route does not check the title's type: a body whose \<^verbatim>\<open>"title"\<close>
  field is any value Python counts as true and that is not a string (the number 5, a
  non-empty array) is answered with status 201 and that value as the title.
\<close>

theorem create_task_echoes_non_string_title:
  assumes "get_json req = Inr (PyDict kvs)"
    and "map_of kvs ''title'' = Some v"
    and "truthy v"
    and "\<And>s. v \<noteq> PyStr s"
  shows "create_task req g =
           (Inr \<lparr>status = 201, mimetype = ''application/json'',
                 body = PyDict [(''id'', PyInt 2), (''title'', v)]\<rparr>, g)"
  using create_task_dict [OF assms(1,2)] assms(3) by simp

theorem create_task_echoes_non_string_title_witness:
  "truthy (PyInt 5) \<and> truthy (PyList [PyInt 1])
   \<and> create_task \<lparr>get_json = Inr (PyDict [(''title'', PyInt 5)])\<rparr> ()
       = (Inr \<lparr>status = 201, mimetype = ''application/json'',
               body = PyDict [(''id'', PyInt 2), (''title'', PyInt 5)]\<rparr>, ())
   \<and> create_task \<lparr>get_json = Inr (PyDict [(''title'', PyList [PyInt 1])])\<rparr> ()
       = (Inr \<lparr>status = 201, mimetype = ''application/json'',
               body = PyDict [(''id'', PyInt 2), (''title'', PyList [PyInt 1])]\<rparr>, ())"
  using create_task_echoes_non_string_title
          [of "\<lparr>get_json = Inr (PyDict [(''title'', PyInt 5)])\<rparr>"
              "[(''title'', PyInt 5)]" "PyInt 5" "()"]
        create_task_echoes_non_string_title
          [of "\<lparr>get_json = Inr (PyDict [(''title'', PyList [PyInt 1])])\<rparr>"
              "[(''title'', PyList [PyInt 1])]" "PyList [PyInt 1]" "()"]
  by simp

end
